theory Spec2Isabelle
  imports Main
begin

section \<open>The runtime the two scripts run in\<close>

text \<open>
  Both scripts are straight-line Node.js programs whose behaviour is decided by what they
  find on the machine. Everything they ask the machine is a field of \<open>world\<close>:
  \<^item> \<open>dirname\<close> is \<^verbatim>\<open>__dirname\<close>, the directory the scripts are installed in;
  \<^item> \<open>path_join\<close> is \<^verbatim>\<open>path.join\<close>, kept as a parameter (its separator depends on the
    platform);
  \<^item> \<open>existsSync\<close> is \<^verbatim>\<open>fs.existsSync\<close>;
  \<^item> \<open>spawnSync\<close> is \<^verbatim>\<open>child_process.spawnSync\<close> applied to a command and its arguments:
    \<open>Inl m\<close> when the call throws an exception with message \<open>m\<close>, \<open>Inr r\<close> when it returns
    the result object \<open>r\<close>;
  \<^item> \<open>execSync\<close> is \<^verbatim>\<open>child_process.execSync\<close> applied to a shell command: \<open>Some m\<close> when
    it throws an error with message \<open>m\<close>, \<open>None\<close> when the command succeeds;
  \<^item> \<open>process_env\<close> is \<^verbatim>\<open>process.env\<close>.
\<close>

record spawn_result =
  status :: "int option"
  error :: "string option"

record world =
  dirname :: string
  path_join :: "string list \<Rightarrow> string"
  existsSync :: "string \<Rightarrow> bool"
  spawnSync :: "string \<Rightarrow> string list \<Rightarrow> string + spawn_result"
  execSync :: "string \<Rightarrow> string option"
  process_env :: "string \<rightharpoonup> string"

text \<open>
  What a script does to the outside is recorded in program order: the questions it asks
  the machine, the lines it writes (\<^verbatim>\<open>console.warn\<close> and \<^verbatim>\<open>console.error\<close> both write to
  standard error, \<^verbatim>\<open>console.log\<close> to standard output) and the signals it sends to its
  child.
\<close>

datatype effect =
    ExistsSync string
  | SpawnSync string "string list"
  | ExecSync string
  | ConsoleLog string
  | ConsoleWarn string
  | ConsoleError string
  | Kill string

text \<open>The arguments of the one \<^verbatim>\<open>spawn\<close> call of \<^verbatim>\<open>index.js\<close>.\<close>

record spawn_call =
  command :: string
  args :: "string list"
  stdio :: string
  env :: "string \<rightharpoonup> string"

text \<open>
  The state of a running script: its effects so far, the child it has spawned (if any),
  and the status it has ended with (\<open>None\<close> while it runs).
\<close>

record process =
  trace :: "effect list"
  child :: "spawn_call option"
  exit_code :: "int option"

definition init :: process where
  "init = \<lparr>trace = [], child = None, exit_code = None\<rparr>"

definition emit :: "effect \<Rightarrow> process \<Rightarrow> process" where
  "emit e st = st\<lparr>trace := trace st @ [e]\<rparr>"

text \<open>
  \<^verbatim>\<open>process.exit(c)\<close> ends the script at once: every model below returns right after it.
\<close>

definition process_exit :: "int \<Rightarrow> process \<Rightarrow> process" where
  "process_exit c st = st\<lparr>exit_code := Some c\<rparr>"

text \<open>The lines written to standard error, in order.\<close>

fun stderr_line :: "effect \<Rightarrow> string option" where
  "stderr_line (ConsoleWarn m) = Some m"
| "stderr_line (ConsoleError m) = Some m"
| "stderr_line _ = None"

definition stderr :: "process \<Rightarrow> string list" where
  "stderr st = List.map_filter stderr_line (trace st)"

text \<open>The programs started with \<^verbatim>\<open>spawnSync\<close>, in order.\<close>

fun executed :: "effect \<Rightarrow> string option" where
  "executed (SpawnSync cmd as) = Some cmd"
| "executed _ = None"

definition executions :: "process \<Rightarrow> string list" where
  "executions st = List.map_filter executed (trace st)"

text \<open>The signals sent to the child, in order.\<close>

fun killed_with :: "effect \<Rightarrow> string option" where
  "killed_with (Kill s) = Some s"
| "killed_with _ = None"

definition kills :: "process \<Rightarrow> string list" where
  "kills st = List.map_filter killed_with (trace st)"

subsection \<open>Numbers in template literals\<close>

text \<open>
  A template literal renders an integer in decimal, with a leading minus sign when it is
  negative.
\<close>

definition digit :: "nat \<Rightarrow> char" where
  "digit n = ''0123456789'' ! (n mod 10)"

function show_nat :: "nat \<Rightarrow> string" where
  "show_nat n = (if n < 10 then [digit n] else show_nat (n div 10) @ [digit n])"
  by pat_completeness auto
termination
  by (relation "measure id") auto

definition show_int :: "int \<Rightarrow> string" where
  "show_int i = (if i < 0 then CHR ''-'' # show_nat (nat (- i)) else show_nat (nat i))"

section \<open>The supervisor: \<^verbatim>\<open>index.js\<close>\<close>

subsection \<open>Interpreter selection\<close>

text \<open>The two entries of \<^verbatim>\<open>venvPaths\<close>, which the source marks Unix and Windows.\<close>

definition venv_unix :: "world \<Rightarrow> string" where
  "venv_unix w = path_join w [dirname w, ''.venv'', ''bin'', ''python'']"

definition venv_windows :: "world \<Rightarrow> string" where
  "venv_windows w = path_join w [dirname w, ''.venv'', ''Scripts'', ''python.exe'']"

definition venvPaths :: "world \<Rightarrow> string list" where
  "venvPaths w = [venv_unix w, venv_windows w]"

definition candidates :: "string list" where
  "candidates = [''python3'', ''python'']"

text \<open>
  The first loop of \<^verbatim>\<open>findPython\<close>: the first path of the list that exists is returned.
\<close>

fun findPython_venv :: "world \<Rightarrow> string list \<Rightarrow> process \<Rightarrow> string option \<times> process" where
  "findPython_venv w [] st = (None, st)"
| "findPython_venv w (venvPath # rest) st =
     (let st1 = emit (ExistsSync venvPath) st in
      if existsSync w venvPath then (Some venvPath, st1)
      else findPython_venv w rest st1)"

text \<open>
  The second loop: each candidate is run with \<^verbatim>\<open>--version\<close>; an exception is caught and
  the next candidate tried, and so is a result whose status is not \<open>0\<close>.
\<close>

fun findPython_system :: "world \<Rightarrow> string list \<Rightarrow> process \<Rightarrow> string option \<times> process" where
  "findPython_system w [] st = (None, st)"
| "findPython_system w (cmd # rest) st =
     (let st1 = emit (SpawnSync cmd [''--version'']) st in
      case spawnSync w cmd [''--version''] of
        Inl e \<Rightarrow> findPython_system w rest st1
      | Inr result \<Rightarrow>
          if status result = Some 0 then
            (Some cmd,
             emit (ConsoleWarn ''If you see import errors, try running: npm install again'')
               (emit (ConsoleWarn ''Warning: Using system Python. Dependencies may not be available.'')
                  st1))
          else findPython_system w rest st1)"

text \<open>
  \<^verbatim>\<open>findPython\<close> returns the interpreter, or \<open>None\<close> when it has ended the process.
\<close>

definition findPython :: "world \<Rightarrow> process \<Rightarrow> string option \<times> process" where
  "findPython w st =
     (case findPython_venv w (venvPaths w) st of
        (Some venvPath, st1) \<Rightarrow> (Some venvPath, st1)
      | (None, st1) \<Rightarrow>
          (case findPython_system w candidates st1 of
             (Some cmd, st2) \<Rightarrow> (Some cmd, st2)
           | (None, st2) \<Rightarrow>
               (None,
                process_exit 1
                  (emit (ConsoleError
                     ''Error: Python not found. Please install Python 3.10+ from python.org'')
                     st2))))"

subsection \<open>Start-up: worker script, interpreter, spawn\<close>

definition serverPath :: "world \<Rightarrow> string" where
  "serverPath w = path_join w [dirname w, ''run_graphistry_mcp.py'']"

definition worker_env :: "world \<Rightarrow> string \<rightharpoonup> string" where
  "worker_env w =
     (process_env w)(''PYTHONUNBUFFERED'' \<mapsto> ''1'', ''GRAPHISTRY_VENV_ACTIVE'' \<mapsto> ''1'')"

definition start :: "world \<Rightarrow> process" where
  "start w =
     (let st0 = emit (ExistsSync (serverPath w)) init in
      if \<not> existsSync w (serverPath w) then
        process_exit 1
          (emit (ConsoleError (''Error: MCP server not found at '' @ serverPath w)) st0)
      else
        (case findPython w st0 of
           (None, st1) \<Rightarrow> st1
         | (Some pythonCmd, st1) \<Rightarrow>
             st1\<lparr>child := Some \<lparr>command = pythonCmd, args = [serverPath w],
                                 stdio = ''inherit'', env = worker_env w\<rparr>\<rparr>))"

subsection \<open>The listeners\<close>

text \<open>
  After the spawn the script only reacts to events. The listener of the child's
  \<^verbatim>\<open>error\<close> event gets the error's message; the listener of its \<^verbatim>\<open>exit\<close> event gets the
  exit code (or \<^verbatim>\<open>null\<close>) and the name of the signal that ended it (or \<^verbatim>\<open>null\<close>); one
  listener is registered for each of \<^verbatim>\<open>SIGTERM\<close> and \<^verbatim>\<open>SIGINT\<close>.
\<close>

datatype term_signal = SIGTERM | SIGINT

fun signal_name :: "term_signal \<Rightarrow> string" where
  "signal_name SIGTERM = ''SIGTERM''"
| "signal_name SIGINT = ''SIGINT''"

datatype event =
    ChildError string
  | ChildExit "int option" "string option"
  | Signal term_signal

text \<open>\<^verbatim>\<open>console.error\<close> joins its two arguments with a space.\<close>

definition on_error :: "string \<Rightarrow> process \<Rightarrow> process" where
  "on_error message st =
     process_exit 1
       (emit (ConsoleError (''Failed to start Python MCP server:'' @ '' '' @ message)) st)"

text \<open>
  In the \<^verbatim>\<open>exit\<close> listener, \<^verbatim>\<open>if (signal)\<close> holds for a string that is not empty.
\<close>

definition on_exit :: "int option \<Rightarrow> string option \<Rightarrow> process \<Rightarrow> process" where
  "on_exit code signal st =
     (if code \<noteq> None \<and> code \<noteq> Some 0 then
        process_exit (the code)
          (emit (ConsoleError (''Python MCP server exited with code '' @ show_int (the code))) st)
      else if signal \<noteq> None \<and> signal \<noteq> Some [] then
        process_exit 1
          (emit (ConsoleError (''Python MCP server killed by signal '' @ the signal)) st)
      else st)"

definition on_signal :: "term_signal \<Rightarrow> process \<Rightarrow> process" where
  "on_signal signal st = emit (Kill (signal_name signal)) st"

text \<open>
  When the \<^verbatim>\<open>exit\<close> listener returns without calling \<^verbatim>\<open>process.exit\<close>, nothing keeps the
  event loop of the supervisor alive: the child is gone, its streams were the supervisor's
  own, and signal listeners do not hold the loop open. Node then ends the process with
  \<^verbatim>\<open>process.exitCode\<close>, which the script never sets, that is with status \<open>0\<close>.
\<close>

definition event_loop_drained :: "process \<Rightarrow> process" where
  "event_loop_drained st =
     (case exit_code st of None \<Rightarrow> st\<lparr>exit_code := Some 0\<rparr> | Some c \<Rightarrow> st)"

text \<open>
  A process that has ended, or that has no child, has no listener to run.
\<close>

definition running :: "process \<Rightarrow> bool" where
  "running st = (exit_code st = None \<and> child st \<noteq> None)"

definition deliver :: "event \<Rightarrow> process \<Rightarrow> process" where
  "deliver ev st =
     (if running st then
        (case ev of
           ChildError message \<Rightarrow> on_error message st
         | ChildExit code signal \<Rightarrow> event_loop_drained (on_exit code signal st)
         | Signal signal \<Rightarrow> on_signal signal st)
      else st)"

definition run :: "world \<Rightarrow> event list \<Rightarrow> process" where
  "run w evs = foldl (\<lambda>st ev. deliver ev st) (start w) evs"

section \<open>The installer: \<^verbatim>\<open>postinstall.js\<close>\<close>

subsection \<open>Coloured output\<close>

definition colors_reset :: string where "colors_reset = CHR 0x1B # ''[0m''"
definition colors_bright :: string where "colors_bright = CHR 0x1B # ''[1m''"
definition colors_green :: string where "colors_green = CHR 0x1B # ''[32m''"
definition colors_yellow :: string where "colors_yellow = CHR 0x1B # ''[33m''"
definition colors_red :: string where "colors_red = CHR 0x1B # ''[31m''"
definition colors_cyan :: string where "colors_cyan = CHR 0x1B # ''[36m''"

definition log :: "string \<Rightarrow> string \<Rightarrow> process \<Rightarrow> process" where
  "log msg color st = emit (ConsoleLog (color @ msg @ colors_reset)) st"

text \<open>
  The pictographs that open some messages, as the bytes of their UTF-8 encoding: U+1F680,
  U+1F4E6, U+2705, U+274C, U+2713, U+2139, and U+26A0 followed by U+FE0F.
\<close>

definition rocket :: string where "rocket = [CHR 0xF0, CHR 0x9F, CHR 0x9A, CHR 0x80]"
definition package :: string where "package = [CHR 0xF0, CHR 0x9F, CHR 0x93, CHR 0xA6]"
definition check_box :: string where "check_box = [CHR 0xE2, CHR 0x9C, CHR 0x85]"
definition cross_mark :: string where "cross_mark = [CHR 0xE2, CHR 0x9D, CHR 0x8C]"
definition check_mark :: string where "check_mark = [CHR 0xE2, CHR 0x9C, CHR 0x93]"
definition info_sign :: string where "info_sign = [CHR 0xE2, CHR 0x84, CHR 0xB9]"
definition warning_sign :: string where
  "warning_sign = [CHR 0xE2, CHR 0x9A, CHR 0xA0, CHR 0xEF, CHR 0xB8, CHR 0x8F]"

subsection \<open>Looking for Python\<close>

text \<open>
  \<^verbatim>\<open>checkCommand\<close> answers \<^verbatim>\<open>true\<close> when \<^verbatim>\<open>spawnSync\<close> returns, whatever it returns, and
  \<^verbatim>\<open>false\<close> when it throws.
\<close>

definition checkCommand :: "world \<Rightarrow> string \<Rightarrow> process \<Rightarrow> bool \<times> process" where
  "checkCommand w cmd st =
     (let st1 = emit (SpawnSync cmd [''--version'']) st in
      case spawnSync w cmd [''--version''] of
        Inl e \<Rightarrow> (False, st1)
      | Inr result \<Rightarrow> (True, st1))"

fun findPython_postinstall_loop ::
  "world \<Rightarrow> string list \<Rightarrow> process \<Rightarrow> string option \<times> process" where
  "findPython_postinstall_loop w [] st = (None, st)"
| "findPython_postinstall_loop w (cmd # rest) st =
     (case checkCommand w cmd st of
        (True, st1) \<Rightarrow> (Some cmd, st1)
      | (False, st1) \<Rightarrow> findPython_postinstall_loop w rest st1)"

definition findPython_postinstall :: "world \<Rightarrow> process \<Rightarrow> string option \<times> process" where
  "findPython_postinstall w st = findPython_postinstall_loop w [''python3'', ''python''] st"

subsection \<open>Installing the dependencies\<close>

definition installWithUv :: "world \<Rightarrow> string \<Rightarrow> process \<Rightarrow> bool \<times> process" where
  "installWithUv w pythonCmd st =
     (let st1 = log (''\<newline>'' @ rocket @ '' Installing Python dependencies with uv...'')
                  colors_cyan st;
          pyprojectPath = path_join w [dirname w, ''pyproject.toml''];
          st2 = emit (ExistsSync pyprojectPath) st1
      in
        if \<not> existsSync w pyprojectPath then
          (False,
           log (warning_sign @ ''  uv installation failed: '' @ ''pyproject.toml not found'')
             colors_yellow st2)
        else
          (let st3 = emit (ExecSync ''uv sync --no-dev'') st2 in
           case execSync w ''uv sync --no-dev'' of
             Some message \<Rightarrow>
               (False,
                log (warning_sign @ ''  uv installation failed: '' @ message) colors_yellow st3)
           | None \<Rightarrow>
               (True,
                log (check_box @ '' Python dependencies installed with uv\<newline>'')
                  colors_green st3)))"

definition pip_command :: "string \<Rightarrow> string" where
  \<open>pip_command pythonCmd = pythonCmd @ '' -m pip install -e ".[dev]"''\<close>

definition installWithPip :: "world \<Rightarrow> string \<Rightarrow> process \<Rightarrow> bool \<times> process" where
  "installWithPip w pythonCmd st =
     (let st1 = log (''\<newline>'' @ package @ '' Installing Python dependencies with pip...'')
                  colors_cyan st;
          st2 = emit (ExecSync (pip_command pythonCmd)) st1
      in
        case execSync w (pip_command pythonCmd) of
          Some message \<Rightarrow>
            (False, log (cross_mark @ '' pip installation failed: '' @ message) colors_red st2)
        | None \<Rightarrow>
            (True,
             log (check_box @ '' Python dependencies installed with pip\<newline>'')
               colors_green st2))"

definition printSuccessMessage :: "bool \<Rightarrow> process \<Rightarrow> process" where
  \<open>printSuccessMessage usedUv st =
     foldl (\<lambda>s (msg, color). log msg color s) st
       [(''\<newline>'' @ replicate 60 CHR ''='', colors_bright),
        (''  '' @ check_box @ '' Installation Complete!'', colors_green),
        (replicate 60 CHR ''='' @ ''\<newline>'', colors_bright),
        (''Next steps:'', colors_cyan),
        (''1. Get a free Graphistry account:'', colors_reset),
        (''   https://hub.graphistry.com\<newline>'', colors_cyan),
        (''2. Set your Graphistry credentials:'', colors_reset),
        (''   export GRAPHISTRY_USERNAME="your_username"'', colors_cyan),
        (''   export GRAPHISTRY_PASSWORD="your_password"\<newline>'', colors_cyan),
        (''3. Configure in Claude Code MCP settings:'', colors_reset),
        (''   {'', colors_reset),
        (''     "graphistry": {'', colors_reset),
        (''       "command": "npx",'', colors_reset),
        (''       "args": ["-y", "@silkspace/graphistry-mcp"],'', colors_reset),
        (''       "env": {'', colors_reset),
        (''         "GRAPHISTRY_USERNAME": "your_username",'', colors_reset),
        (''         "GRAPHISTRY_PASSWORD": "your_password"'', colors_reset),
        (''       }'', colors_reset),
        (''     }'', colors_reset),
        (''   }\<newline>'', colors_reset),
        (''Documentation: https://github.com/graphistry/graphistry-mcp\<newline>'', colors_cyan)]\<close>

text \<open>
  The end of \<^verbatim>\<open>main\<close>, from the comment \<^verbatim>\<open>Fallback to pip\<close> on: it is reached when uv is
  missing and when the installation with uv has failed.
\<close>

definition main_pip :: "world \<Rightarrow> string \<Rightarrow> process \<Rightarrow> process" where
  \<open>main_pip w pythonCmd st =
     (case installWithPip w pythonCmd st of
        (True, st1) \<Rightarrow> printSuccessMessage False st1
      | (False, st1) \<Rightarrow>
          process_exit 1
            (log (''  pip install -e ".[dev]"\<newline>'') colors_cyan
              (log ''  OR'' colors_yellow
                (log ''  uv sync'' colors_cyan
                  (log ''Please install manually:'' colors_yellow
                    (log (''\<newline>'' @ cross_mark @ '' Failed to install Python dependencies!\<newline>'')
                       colors_red st1))))))\<close>

text \<open>The branch of \<^verbatim>\<open>main\<close> taken when \<^verbatim>\<open>findPython\<close> returns \<^verbatim>\<open>null\<close>.\<close>

definition python_not_found :: "process \<Rightarrow> process" where
  "python_not_found st =
     process_exit 1
       (log ''Then run: npm install again\<newline>'' colors_yellow
         (log ''\<newline>Please install Python 3.10+ from https://python.org'' colors_yellow
           (log (cross_mark @ '' Python not found!'') colors_red st)))"

definition main :: "world \<Rightarrow> process" where
  "main w =
     (let st1 = log (''\<newline>'' @ replicate 60 CHR ''='') colors_bright init;
          st2 = log ''  Graphistry MCP - Python Dependencies Setup'' colors_bright st1;
          st3 = log (replicate 60 CHR ''='' @ ''\<newline>'') colors_bright st2
      in
        case findPython_postinstall w st3 of
          (None, st4) \<Rightarrow> python_not_found st4
        | (Some pythonCmd, st4) \<Rightarrow>
            (let st5 = log (check_mark @ '' Found Python: '' @ pythonCmd) colors_green st4 in
             case checkCommand w ''uv'' st5 of
               (True, st6) \<Rightarrow>
                 (let st7 = log (check_mark @ '' Found uv (recommended package manager)'')
                              colors_green st6 in
                  case installWithUv w pythonCmd st7 of
                    (True, st8) \<Rightarrow> printSuccessMessage True st8
                  | (False, st8) \<Rightarrow>
                      main_pip w pythonCmd
                        (log ''\<newline>Falling back to pip...'' colors_yellow st8))
             | (False, st6) \<Rightarrow>
                 main_pip w pythonCmd
                   (log (''  (Install uv for faster dependency management: ''
                           @ ''https://github.com/astral-sh/uv)\<newline>'') colors_cyan
                     (log (info_sign @ '' uv not found - using pip instead'') colors_yellow
                        st6))))"

section \<open>Vocabulary of the statements\<close>

text \<open>
  A candidate passes the version probe when \<^verbatim>\<open>spawnSync\<close> returns a result whose status
  is \<open>0\<close>.
\<close>

definition version_probe_ok :: "world \<Rightarrow> string \<Rightarrow> bool" where
  "version_probe_ok w cmd =
     (case spawnSync w cmd [''--version''] of
        Inl e \<Rightarrow> False
      | Inr result \<Rightarrow> status result = Some 0)"

text \<open>The two lines of the warning about the system-wide interpreter.\<close>

definition system_python_warning :: "effect list" where
  "system_python_warning =
     [ConsoleWarn ''Warning: Using system Python. Dependencies may not be available.'',
      ConsoleWarn ''If you see import errors, try running: npm install again'']"

text \<open>Several effects at once, and the effects between an earlier and a later state.\<close>

definition emits :: "effect list \<Rightarrow> process \<Rightarrow> process" where
  "emits es st = st\<lparr>trace := trace st @ es\<rparr>"

definition since :: "process \<Rightarrow> process \<Rightarrow> effect list" where
  "since st st' = drop (length (trace st)) (trace st')"

text \<open>
  A command name is a string that is not empty and holds no NUL character: for any other
  string \<^verbatim>\<open>spawnSync\<close> rejects its argument with an exception before it launches anything.
\<close>

definition command_name :: "string \<Rightarrow> bool" where
  "command_name cmd = (cmd \<noteq> [] \<and> CHR 0x00 \<notin> set cmd)"

text \<open>
  \<^verbatim>\<open>spawnSync\<close> reports a launch that failed in the result it returns and does not throw:
  the premise under which the installer's check is studied.
\<close>

definition spawnSync_returns :: "world \<Rightarrow> bool" where
  "spawnSync_returns w =
     (\<forall>cmd as. command_name cmd \<longrightarrow> (\<exists>result. spawnSync w cmd as = Inr result))"

text \<open>The first line of the branch of \<^verbatim>\<open>main\<close> for a missing Python.\<close>

definition not_found_line :: effect where
  "not_found_line = ConsoleLog (colors_red @ cross_mark @ '' Python not found!'' @ colors_reset)"

section \<open>Concrete machines\<close>

text \<open>
  A machine with the scripts installed in \<^verbatim>\<open>/srv/mcp\<close>, the given files present, and the
  given outcome for each command run with \<^verbatim>\<open>--version\<close>.
\<close>

definition posix_join :: "string list \<Rightarrow> string" where
  "posix_join ps = foldr (\<lambda>p r. if r = [] then p else p @ ''/'' @ r) ps []"

definition launch_failed :: "string + spawn_result" where
  "launch_failed = Inr \<lparr>status = None, error = Some ''spawnSync ENOENT''\<rparr>"

definition exits_with :: "int \<Rightarrow> string + spawn_result" where
  "exits_with c = Inr \<lparr>status = Some c, error = None\<rparr>"

definition machine :: "string list \<Rightarrow> (string \<Rightarrow> string + spawn_result) \<Rightarrow> world" where
  "machine files probe =
     \<lparr>dirname = ''/srv/mcp'', path_join = posix_join,
      existsSync = (\<lambda>p. p \<in> set files),
      spawnSync = (\<lambda>cmd as. probe cmd),
      execSync = (\<lambda>c. None),
      process_env = [''GRAPHISTRY_USERNAME'' \<mapsto> ''ada'', ''GRAPHISTRY_PASSWORD'' \<mapsto> ''pw'',
                     ''PYTHONUNBUFFERED'' \<mapsto> ''0'']\<rparr>"

section \<open>Auxiliary facts about the supervisor\<close>

lemma findPython_venv_paths:
  "findPython_venv w (venvPaths w) st =
     (if existsSync w (venv_unix w) then (Some (venv_unix w), emits [ExistsSync (venv_unix w)] st)
      else if existsSync w (venv_windows w) then
        (Some (venv_windows w), emits [ExistsSync (venv_unix w), ExistsSync (venv_windows w)] st)
      else (None, emits [ExistsSync (venv_unix w), ExistsSync (venv_windows w)] st))"
  by (simp add: venvPaths_def emit_def emits_def)

lemma findPython_system_candidates:
  "findPython_system w candidates st =
     (if version_probe_ok w ''python3'' then
        (Some ''python3'', emits (SpawnSync ''python3'' [''--version''] # system_python_warning) st)
      else if version_probe_ok w ''python'' then
        (Some ''python'',
         emits ([SpawnSync ''python3'' [''--version''], SpawnSync ''python'' [''--version'']]
                  @ system_python_warning) st)
      else (None, emits [SpawnSync ''python3'' [''--version''], SpawnSync ''python'' [''--version'']] st))"
  by (cases "spawnSync w ''python3'' [''--version'']"; cases "spawnSync w ''python'' [''--version'']")
     (simp_all add: candidates_def version_probe_ok_def emit_def emits_def system_python_warning_def)

lemma findPython_cases:
  "findPython w st =
     (if existsSync w (venv_unix w) then
        (Some (venv_unix w), emits [ExistsSync (venv_unix w)] st)
      else if existsSync w (venv_windows w) then
        (Some (venv_windows w), emits [ExistsSync (venv_unix w), ExistsSync (venv_windows w)] st)
      else if version_probe_ok w ''python3'' then
        (Some ''python3'',
         emits ([ExistsSync (venv_unix w), ExistsSync (venv_windows w),
                 SpawnSync ''python3'' [''--version'']] @ system_python_warning) st)
      else if version_probe_ok w ''python'' then
        (Some ''python'',
         emits ([ExistsSync (venv_unix w), ExistsSync (venv_windows w),
                 SpawnSync ''python3'' [''--version''], SpawnSync ''python'' [''--version'']]
                @ system_python_warning) st)
      else
        (None,
         process_exit 1
           (emits [ExistsSync (venv_unix w), ExistsSync (venv_windows w),
                   SpawnSync ''python3'' [''--version''], SpawnSync ''python'' [''--version''],
                   ConsoleError ''Error: Python not found. Please install Python 3.10+ from python.org'']
              st)))"
  by (simp add: findPython_def findPython_venv_paths findPython_system_candidates
        emits_def emit_def process_exit_def)

lemmas machine_simps = machine_def posix_join_def launch_failed_def exits_with_def
  serverPath_def venv_unix_def venv_windows_def version_probe_ok_def

lemmas effect_simps = emits_def emit_def process_exit_def init_def system_python_warning_def

lemma running_start_venv:
  "running (start (machine [''/srv/mcp/run_graphistry_mcp.py'', ''/srv/mcp/.venv/bin/python'']
      (\<lambda>c. launch_failed)))"
  by (simp add: running_def start_def findPython_cases machine_simps effect_simps)

section \<open>The contract of the supervisor\<close>

text \<open>
  Claim C4. When the worker script \<^verbatim>\<open>run_graphistry_mcp.py\<close> is absent at the path computed
  from the install directory, the supervisor writes one error line that holds the path it
  tried and ends with status \<open>1\<close>. It has asked the machine nothing but whether that file
  exists: no interpreter is looked for or run, nothing is spawned, and no later event
  changes the outcome.
\<close>
theorem worker_script_missing:
  assumes "\<not> existsSync w (serverPath w)"
  shows "start w =
           \<lparr>trace = [ExistsSync (serverPath w),
                     ConsoleError (''Error: MCP server not found at '' @ serverPath w)],
            child = None, exit_code = Some 1\<rparr>
         \<and> executions (start w) = []
         \<and> run w evs = start w"
proof -
  have s: "start w =
           \<lparr>trace = [ExistsSync (serverPath w),
                     ConsoleError (''Error: MCP server not found at '' @ serverPath w)],
            child = None, exit_code = Some 1\<rparr>"
    using assms by (simp add: start_def effect_simps)
  have d: "deliver ev (start w) = start w" for ev
    by (simp add: deliver_def running_def s)
  have "run w evs = start w"
    unfolding run_def by (induction evs rule: rev_induct) (simp_all add: d)
  moreover have "executions (start w) = []"
    by (simp add: s executions_def List.map_filter_simps)
  ultimately show ?thesis using s by simp
qed


theorem worker_script_missing_witness:
  "start (machine [''/srv/mcp/.venv/bin/python''] (\<lambda>c. exits_with 0)) =
     \<lparr>trace = [ExistsSync ''/srv/mcp/run_graphistry_mcp.py'',
               ConsoleError ''Error: MCP server not found at /srv/mcp/run_graphistry_mcp.py''],
      child = None, exit_code = Some 1\<rparr>
   \<and> executions (start (machine [''/srv/mcp/.venv/bin/python''] (\<lambda>c. exits_with 0))) = []
   \<and> run (machine [''/srv/mcp/.venv/bin/python''] (\<lambda>c. exits_with 0))
         [Signal SIGINT, ChildExit (Some 0) None]
       = start (machine [''/srv/mcp/.venv/bin/python''] (\<lambda>c. exits_with 0))"
proof -
  let ?w = "machine [''/srv/mcp/.venv/bin/python''] (\<lambda>c. exits_with 0)"
  have absent: "\<not> existsSync ?w (serverPath ?w)"
    by (simp add: machine_simps)
  have path: "serverPath ?w = ''/srv/mcp/run_graphistry_mcp.py''"
    by (simp add: machine_simps)
  show ?thesis
    using worker_script_missing [OF absent, of "[Signal SIGINT, ChildExit (Some 0) None]"]
    by (simp add: path executions_def List.map_filter_def)
qed

text \<open>
  Claim C3. Interpreter selection goes in a fixed order and the first success wins. The
  Unix path of the isolated environment is looked up with \<^verbatim>\<open>existsSync\<close>, then the Windows
  path; when one exists it is returned and no program has been run. Only when neither
  exists is \<^verbatim>\<open>python3\<close>, and after it \<^verbatim>\<open>python\<close>, run with \<^verbatim>\<open>--version\<close>, and a candidate is
  taken only when that run returns status \<open>0\<close>.
\<close>
theorem interpreter_selection_order:
  "findPython w st =
     (if existsSync w (venv_unix w) then
        (Some (venv_unix w), emits [ExistsSync (venv_unix w)] st)
      else if existsSync w (venv_windows w) then
        (Some (venv_windows w), emits [ExistsSync (venv_unix w), ExistsSync (venv_windows w)] st)
      else if version_probe_ok w ''python3'' then
        (Some ''python3'',
         emits ([ExistsSync (venv_unix w), ExistsSync (venv_windows w),
                 SpawnSync ''python3'' [''--version'']] @ system_python_warning) st)
      else if version_probe_ok w ''python'' then
        (Some ''python'',
         emits ([ExistsSync (venv_unix w), ExistsSync (venv_windows w),
                 SpawnSync ''python3'' [''--version''], SpawnSync ''python'' [''--version'']]
                @ system_python_warning) st)
      else
        (None,
         process_exit 1
           (emits [ExistsSync (venv_unix w), ExistsSync (venv_windows w),
                   SpawnSync ''python3'' [''--version''], SpawnSync ''python'' [''--version''],
                   ConsoleError
                     ''Error: Python not found. Please install Python 3.10+ from python.org'']
              st)))
   \<and> (existsSync w (venv_unix w) \<or> existsSync w (venv_windows w) \<longrightarrow>
        executions (snd (findPython w st)) = executions st)"
  by (simp add: findPython_cases executions_def emits_def List.map_filter_def)

theorem interpreter_selection_order_witness:
  "findPython (machine [''/srv/mcp/.venv/bin/python''] (\<lambda>c. exits_with 0)) init =
     (Some ''/srv/mcp/.venv/bin/python'',
      \<lparr>trace = [ExistsSync ''/srv/mcp/.venv/bin/python''], child = None, exit_code = None\<rparr>)
   \<and> findPython (machine [''/srv/mcp/.venv/Scripts/python.exe''] (\<lambda>c. exits_with 0)) init =
     (Some ''/srv/mcp/.venv/Scripts/python.exe'',
      \<lparr>trace = [ExistsSync ''/srv/mcp/.venv/bin/python'',
                ExistsSync ''/srv/mcp/.venv/Scripts/python.exe''],
       child = None, exit_code = None\<rparr>)
   \<and> fst (findPython (machine [] (\<lambda>c. exits_with 0)) init) = Some ''python3''
   \<and> executions (snd (findPython (machine [] (\<lambda>c. exits_with 0)) init)) = [''python3'']
   \<and> fst (findPython (machine [] (\<lambda>c. if c = ''python'' then exits_with 0 else launch_failed))
          init) = Some ''python''
   \<and> executions
         (snd (findPython (machine [] (\<lambda>c. if c = ''python'' then exits_with 0 else launch_failed))
            init)) = [''python3'', ''python'']
   \<and> fst (findPython (machine [] (\<lambda>c. if c = ''python'' then Inl ''boom'' else exits_with 2))
          init) = None"
  using interpreter_selection_order [of "machine [''/srv/mcp/.venv/bin/python''] (\<lambda>c. exits_with 0)" init]
    interpreter_selection_order [of "machine [''/srv/mcp/.venv/Scripts/python.exe''] (\<lambda>c. exits_with 0)" init]
    interpreter_selection_order [of "machine [] (\<lambda>c. exits_with 0)" init]
    interpreter_selection_order
      [of "machine [] (\<lambda>c. if c = ''python'' then exits_with 0 else launch_failed)" init]
    interpreter_selection_order
      [of "machine [] (\<lambda>c. if c = ''python'' then Inl ''boom'' else exits_with 2)" init]
  by (simp add: machine_simps effect_simps executions_def List.map_filter_def)

text \<open>
  Claim C5. When neither path of the isolated environment exists and neither \<^verbatim>\<open>python3\<close>
  nor \<^verbatim>\<open>python\<close> passes the version probe, \<^verbatim>\<open>findPython\<close> writes the line that tells the
  operator to install Python 3.10+ and ends the process with status \<open>1\<close>. Each candidate
  has been tried once, no worker is spawned, and no later event changes the outcome.
\<close>
theorem interpreter_not_found:
  assumes "\<not> existsSync w (venv_unix w)" and "\<not> existsSync w (venv_windows w)"
    and "\<not> version_probe_ok w ''python3''" and "\<not> version_probe_ok w ''python''"
  shows "findPython w st =
           (None,
            st\<lparr>trace := trace st @
                  [ExistsSync (venv_unix w), ExistsSync (venv_windows w),
                   SpawnSync ''python3'' [''--version''], SpawnSync ''python'' [''--version''],
                   ConsoleError
                     ''Error: Python not found. Please install Python 3.10+ from python.org''],
               exit_code := Some 1\<rparr>)
         \<and> (existsSync w (serverPath w) \<longrightarrow>
              start w =
                \<lparr>trace =
                   [ExistsSync (serverPath w),
                    ExistsSync (venv_unix w), ExistsSync (venv_windows w),
                    SpawnSync ''python3'' [''--version''], SpawnSync ''python'' [''--version''],
                    ConsoleError
                      ''Error: Python not found. Please install Python 3.10+ from python.org''],
                 child = None, exit_code = Some 1\<rparr>
              \<and> run w evs = start w)"
proof -
  have f: "findPython w st =
           (None,
            st\<lparr>trace := trace st @
                  [ExistsSync (venv_unix w), ExistsSync (venv_windows w),
                   SpawnSync ''python3'' [''--version''], SpawnSync ''python'' [''--version''],
                   ConsoleError
                     ''Error: Python not found. Please install Python 3.10+ from python.org''],
               exit_code := Some 1\<rparr>)" for st
    using assms by (simp add: findPython_cases effect_simps)
  have "run w evs = start w" if s: "exit_code (start w) = Some 1"
  proof -
    have d: "deliver ev (start w) = start w" for ev
      by (simp add: deliver_def running_def s)
    show ?thesis
      unfolding run_def by (induction evs rule: rev_induct) (simp_all add: d)
  qed
  then show ?thesis
    by (simp add: f start_def effect_simps)
qed

theorem interpreter_not_found_witness:
  "start (machine [''/srv/mcp/run_graphistry_mcp.py'']
            (\<lambda>c. if c = ''python'' then exits_with 9009 else launch_failed)) =
     \<lparr>trace =
        [ExistsSync ''/srv/mcp/run_graphistry_mcp.py'',
         ExistsSync ''/srv/mcp/.venv/bin/python'', ExistsSync ''/srv/mcp/.venv/Scripts/python.exe'',
         SpawnSync ''python3'' [''--version''], SpawnSync ''python'' [''--version''],
         ConsoleError ''Error: Python not found. Please install Python 3.10+ from python.org''],
      child = None, exit_code = Some 1\<rparr>"
proof -
  let ?w = "machine [''/srv/mcp/run_graphistry_mcp.py'']
              (\<lambda>c. if c = ''python'' then exits_with 9009 else launch_failed)"
  have a: "\<not> existsSync ?w (venv_unix ?w)" and b: "\<not> existsSync ?w (venv_windows ?w)"
    and c: "\<not> version_probe_ok ?w ''python3''" and d: "\<not> version_probe_ok ?w ''python''"
    and e: "existsSync ?w (serverPath ?w)"
    by (simp_all add: machine_simps)
  show ?thesis
    using interpreter_not_found [OF a b c d, of init "[]"] e
    by (simp add: machine_simps)
qed

text \<open>
  Claim C6. The environment given to the spawned worker is the supervisor's own with
  \<^verbatim>\<open>PYTHONUNBUFFERED\<close> and \<^verbatim>\<open>GRAPHISTRY_VENV_ACTIVE\<close> set to \<^verbatim>\<open>1\<close>: it has those two names and
  the supervisor's and no other, and every other variable, \<^verbatim>\<open>GRAPHISTRY_USERNAME\<close> and
  \<^verbatim>\<open>GRAPHISTRY_PASSWORD\<close> among them, has the value it has in the supervisor.
\<close>
theorem worker_environment:
  assumes "child (start w) = Some c"
  shows "env c ''PYTHONUNBUFFERED'' = Some ''1''
         \<and> env c ''GRAPHISTRY_VENV_ACTIVE'' = Some ''1''
         \<and> (\<forall>k. k \<noteq> ''PYTHONUNBUFFERED'' \<and> k \<noteq> ''GRAPHISTRY_VENV_ACTIVE'' \<longrightarrow>
                env c k = process_env w k)
         \<and> dom (env c) = dom (process_env w) \<union> {''PYTHONUNBUFFERED'', ''GRAPHISTRY_VENV_ACTIVE''}
         \<and> env c ''GRAPHISTRY_USERNAME'' = process_env w ''GRAPHISTRY_USERNAME''
         \<and> env c ''GRAPHISTRY_PASSWORD'' = process_env w ''GRAPHISTRY_PASSWORD''"
proof -
  have child_findPython: "child (snd (findPython w st)) = child st" for st
    by (simp add: findPython_cases effect_simps)
  have "env c = worker_env w"
  proof (cases "existsSync w (serverPath w)")
    case False
    with assms show ?thesis by (simp add: start_def effect_simps)
  next
    case True
    show ?thesis
    proof (cases "findPython w (emit (ExistsSync (serverPath w)) init)")
      case (Pair r st1)
      have "child st1 = None"
        using child_findPython [of "emit (ExistsSync (serverPath w)) init"] Pair
        by (simp add: effect_simps)
      with assms True Pair show ?thesis
        by (cases r) (auto simp: start_def)
    qed
  qed
  then show ?thesis
    by (auto simp: worker_env_def)
qed

theorem worker_environment_witness:
  "\<exists>c. child (start (machine [''/srv/mcp/run_graphistry_mcp.py'', ''/srv/mcp/.venv/bin/python'']
                       (\<lambda>c. launch_failed))) = Some c
       \<and> command c = ''/srv/mcp/.venv/bin/python''
       \<and> args c = [''/srv/mcp/run_graphistry_mcp.py'']
       \<and> stdio c = ''inherit''
       \<and> env c ''PYTHONUNBUFFERED'' = Some ''1''
       \<and> env c ''GRAPHISTRY_VENV_ACTIVE'' = Some ''1''
       \<and> env c ''GRAPHISTRY_USERNAME'' = Some ''ada''
       \<and> env c ''GRAPHISTRY_PASSWORD'' = Some ''pw''
       \<and> env c ''HOME'' = None"
proof -
  let ?w = "machine [''/srv/mcp/run_graphistry_mcp.py'', ''/srv/mcp/.venv/bin/python'']
              (\<lambda>c. launch_failed)"
  let ?c = "\<lparr>command = ''/srv/mcp/.venv/bin/python'', args = [''/srv/mcp/run_graphistry_mcp.py''],
             stdio = ''inherit'', env = worker_env ?w\<rparr>"
  have spawned: "child (start ?w) = Some ?c"
    by (simp add: start_def findPython_cases machine_simps effect_simps)
  have "process_env ?w ''GRAPHISTRY_USERNAME'' = Some ''ada''"
    and "process_env ?w ''GRAPHISTRY_PASSWORD'' = Some ''pw''"
    and "process_env ?w ''HOME'' = None"
    by (simp_all add: machine_def)
  with worker_environment [OF spawned] spawned show ?thesis
    by simp
qed

text \<open>
  Claim C9. The warning that dependencies may not be available is written exactly when a
  system-wide interpreter, \<^verbatim>\<open>python3\<close> or \<^verbatim>\<open>python\<close>, is selected: then both of its lines are
  written and the process goes on; otherwise neither line is written, and when the
  interpreter of the isolated environment is selected nothing at all is written to
  standard error.
\<close>
theorem system_python_warning_iff:
  "case findPython w st of
     (selected, st') \<Rightarrow>
       let new = since st st';
           fallback = (\<not> existsSync w (venv_unix w) \<and> \<not> existsSync w (venv_windows w)
                       \<and> (selected = Some ''python3'' \<or> selected = Some ''python''))
       in trace st' = trace st @ new
          \<and> (fallback \<longrightarrow>
                set system_python_warning \<subseteq> set new \<and> exit_code st' = exit_code st)
          \<and> (\<not> fallback \<longrightarrow> set system_python_warning \<inter> set new = {})
          \<and> (existsSync w (venv_unix w) \<or> existsSync w (venv_windows w) \<longrightarrow>
                selected \<noteq> None \<and> List.map_filter stderr_line new = [])"
  by (simp add: findPython_cases since_def effect_simps List.map_filter_def)

theorem system_python_warning_iff_witness:
  "stderr (start (machine [''/srv/mcp/run_graphistry_mcp.py''] (\<lambda>c. exits_with 0))) =
     [''Warning: Using system Python. Dependencies may not be available.'',
      ''If you see import errors, try running: npm install again'']
   \<and> stderr (start (machine [''/srv/mcp/run_graphistry_mcp.py'', ''/srv/mcp/.venv/bin/python'']
                 (\<lambda>c. exits_with 0))) = []
   \<and> stderr (start (machine [''/srv/mcp/run_graphistry_mcp.py''] (\<lambda>c. launch_failed))) =
     [''Error: Python not found. Please install Python 3.10+ from python.org'']"
  using system_python_warning_iff
      [where w = "machine [''/srv/mcp/run_graphistry_mcp.py''] (\<lambda>c. exits_with 0)"
         and st = "emit (ExistsSync ''/srv/mcp/run_graphistry_mcp.py'') init"]
    system_python_warning_iff
      [where w = "machine [''/srv/mcp/run_graphistry_mcp.py'', ''/srv/mcp/.venv/bin/python'']
                    (\<lambda>c. exits_with 0)"
         and st = "emit (ExistsSync ''/srv/mcp/run_graphistry_mcp.py'') init"]
    system_python_warning_iff
      [where w = "machine [''/srv/mcp/run_graphistry_mcp.py''] (\<lambda>c. launch_failed)"
         and st = "emit (ExistsSync ''/srv/mcp/run_graphistry_mcp.py'') init"]
  by (simp add: start_def stderr_def findPython_cases machine_simps effect_simps
        List.map_filter_def)

text \<open>
  Claim C1. When the worker exits with status code \<open>c\<close>, the supervisor ends with exactly
  \<open>c\<close>: for \<open>c = 0\<close> it writes nothing and ends with \<open>0\<close>, for any other \<open>c\<close> it first writes
  one line to standard error that reports the code and then ends with \<open>c\<close>.
\<close>
theorem worker_exit_code_propagates:
  assumes "running st"
  shows "exit_code (deliver (ChildExit (Some c) None) st) = Some c
         \<and> trace (deliver (ChildExit (Some c) None) st) =
             trace st @
               (if c = 0 then []
                else [ConsoleError (''Python MCP server exited with code '' @ show_int c)])"
  using assms
  by (simp add: deliver_def on_exit_def event_loop_drained_def running_def effect_simps)

theorem worker_exit_code_propagates_witness:
  "exit_code (run (machine [''/srv/mcp/run_graphistry_mcp.py'', ''/srv/mcp/.venv/bin/python'']
                     (\<lambda>c. launch_failed)) [ChildExit (Some 0) None]) = Some 0
   \<and> stderr (run (machine [''/srv/mcp/run_graphistry_mcp.py'', ''/srv/mcp/.venv/bin/python'']
                   (\<lambda>c. launch_failed)) [ChildExit (Some 0) None]) = []
   \<and> exit_code (run (machine [''/srv/mcp/run_graphistry_mcp.py'', ''/srv/mcp/.venv/bin/python'']
                       (\<lambda>c. launch_failed)) [ChildExit (Some 7) None]) = Some 7
   \<and> stderr (run (machine [''/srv/mcp/run_graphistry_mcp.py'', ''/srv/mcp/.venv/bin/python'']
                   (\<lambda>c. launch_failed)) [ChildExit (Some 7) None]) =
       [''Python MCP server exited with code 7'']"
proof -
  let ?w = "machine [''/srv/mcp/run_graphistry_mcp.py'', ''/srv/mcp/.venv/bin/python'']
              (\<lambda>c. launch_failed)"
  have quiet: "trace (start ?w) =
      [ExistsSync ''/srv/mcp/run_graphistry_mcp.py'', ExistsSync ''/srv/mcp/.venv/bin/python'']"
    by (simp add: start_def findPython_cases machine_simps effect_simps)
  have seven: "show_int 7 = ''7''"
    by (simp add: show_int_def digit_def)
  show ?thesis
    using worker_exit_code_propagates [OF running_start_venv, of 0]
      worker_exit_code_propagates [OF running_start_venv, of 7]
    by (simp add: run_def stderr_def quiet seven List.map_filter_def)
qed

text \<open>
  Claim C7. When the worker is ended by a signal (the exit listener gets no code and the
  name of the signal), the supervisor writes one line to standard error that holds the
  name of the signal and ends with status \<open>1\<close>, whichever signal it was.
\<close>
theorem worker_killed_by_signal:
  assumes "running st" and "s \<noteq> []"
  shows "deliver (ChildExit None (Some s)) st =
           st\<lparr>trace := trace st @ [ConsoleError (''Python MCP server killed by signal '' @ s)],
              exit_code := Some 1\<rparr>"
  using assms
  by (simp add: deliver_def on_exit_def event_loop_drained_def running_def effect_simps)

theorem worker_killed_by_signal_witness:
  "run (machine [''/srv/mcp/run_graphistry_mcp.py'', ''/srv/mcp/.venv/bin/python'']
          (\<lambda>c. launch_failed)) [ChildExit None (Some ''SIGKILL'')] =
     \<lparr>trace = [ExistsSync ''/srv/mcp/run_graphistry_mcp.py'',
               ExistsSync ''/srv/mcp/.venv/bin/python'',
               ConsoleError ''Python MCP server killed by signal SIGKILL''],
      child = child (start (machine [''/srv/mcp/run_graphistry_mcp.py'',
                                     ''/srv/mcp/.venv/bin/python''] (\<lambda>c. launch_failed))),
      exit_code = Some 1\<rparr>"
proof -
  let ?w = "machine [''/srv/mcp/run_graphistry_mcp.py'', ''/srv/mcp/.venv/bin/python'']
              (\<lambda>c. launch_failed)"
  have quiet: "trace (start ?w) =
      [ExistsSync ''/srv/mcp/run_graphistry_mcp.py'', ExistsSync ''/srv/mcp/.venv/bin/python'']"
    by (simp add: start_def findPython_cases machine_simps effect_simps)
  have name: "''SIGKILL'' \<noteq> []"
    by simp
  show ?thesis
    using worker_killed_by_signal [OF running_start_venv name]
    by (simp add: run_def quiet)
qed

text \<open>
  Claim C8. When spawning the worker fails, the supervisor writes the reason of the
  failure to standard error and ends with status \<open>1\<close>.
\<close>
theorem spawn_failure:
  assumes "running st"
  shows "deliver (ChildError message) st =
           st\<lparr>trace := trace st @
                 [ConsoleError (''Failed to start Python MCP server: '' @ message)],
              exit_code := Some 1\<rparr>"
  using assms
  by (simp add: deliver_def on_error_def effect_simps)

theorem spawn_failure_witness:
  "run (machine [''/srv/mcp/run_graphistry_mcp.py'', ''/srv/mcp/.venv/bin/python'']
          (\<lambda>c. launch_failed)) [ChildError ''spawn /srv/mcp/.venv/bin/python EACCES''] =
     \<lparr>trace = [ExistsSync ''/srv/mcp/run_graphistry_mcp.py'',
               ExistsSync ''/srv/mcp/.venv/bin/python'',
               ConsoleError
                 ''Failed to start Python MCP server: spawn /srv/mcp/.venv/bin/python EACCES''],
      child = child (start (machine [''/srv/mcp/run_graphistry_mcp.py'',
                                     ''/srv/mcp/.venv/bin/python''] (\<lambda>c. launch_failed))),
      exit_code = Some 1\<rparr>"
proof -
  let ?w = "machine [''/srv/mcp/run_graphistry_mcp.py'', ''/srv/mcp/.venv/bin/python'']
              (\<lambda>c. launch_failed)"
  have quiet: "trace (start ?w) =
      [ExistsSync ''/srv/mcp/run_graphistry_mcp.py'', ExistsSync ''/srv/mcp/.venv/bin/python'']"
    by (simp add: start_def findPython_cases machine_simps effect_simps)
  show ?thesis
    using spawn_failure [OF running_start_venv]
    by (simp add: run_def quiet)
qed

text \<open>
  Claim C2. When the supervisor gets \<^verbatim>\<open>SIGTERM\<close> or \<^verbatim>\<open>SIGINT\<close> while the worker runs, it
  sends the signal of the same name to the worker and does nothing else: it keeps running,
  and the status it ends with and what it reports when the worker then exits are those of
  the ordinary handling of the worker's exit.
\<close>
theorem termination_signal_forwarded:
  assumes "running st"
  shows "deliver (Signal s) st = st\<lparr>trace := trace st @ [Kill (signal_name s)]\<rparr>
         \<and> kills (deliver (Signal s) st) = kills st @ [signal_name s]
         \<and> running (deliver (Signal s) st)
         \<and> exit_code (deliver (ChildExit code signal) (deliver (Signal s) st)) =
             exit_code (deliver (ChildExit code signal) st)
         \<and> stderr (deliver (ChildExit code signal) (deliver (Signal s) st)) =
             stderr (deliver (ChildExit code signal) st)"
  using assms
  by (cases code; cases signal)
     (simp_all add: deliver_def on_signal_def on_exit_def event_loop_drained_def running_def
        kills_def stderr_def effect_simps List.map_filter_def)

theorem termination_signal_forwarded_witness:
  "kills (run (machine [''/srv/mcp/run_graphistry_mcp.py'', ''/srv/mcp/.venv/bin/python'']
                 (\<lambda>c. launch_failed)) [Signal SIGTERM]) = [''SIGTERM'']
   \<and> exit_code (run (machine [''/srv/mcp/run_graphistry_mcp.py'', ''/srv/mcp/.venv/bin/python'']
                       (\<lambda>c. launch_failed)) [Signal SIGTERM]) = None
   \<and> kills (run (machine [''/srv/mcp/run_graphistry_mcp.py'', ''/srv/mcp/.venv/bin/python'']
                   (\<lambda>c. launch_failed)) [Signal SIGINT]) = [''SIGINT'']
   \<and> exit_code (run (machine [''/srv/mcp/run_graphistry_mcp.py'', ''/srv/mcp/.venv/bin/python'']
                       (\<lambda>c. launch_failed)) [Signal SIGINT, ChildExit None (Some ''SIGINT'')])
       = Some 1"
proof -
  let ?w = "machine [''/srv/mcp/run_graphistry_mcp.py'', ''/srv/mcp/.venv/bin/python'']
              (\<lambda>c. launch_failed)"
  have quiet: "trace (start ?w) =
      [ExistsSync ''/srv/mcp/run_graphistry_mcp.py'', ExistsSync ''/srv/mcp/.venv/bin/python'']"
    by (simp add: start_def findPython_cases machine_simps effect_simps)
  have none: "kills (start ?w) = []"
    by (simp add: kills_def quiet List.map_filter_def)
  have later: "exit_code (deliver (ChildExit None (Some ''SIGINT'')) (start ?w)) = Some 1"
    using running_start_venv
    by (simp add: deliver_def on_exit_def event_loop_drained_def effect_simps)
  note fwd_term = termination_signal_forwarded [OF running_start_venv, of SIGTERM None None]
  note fwd_int = termination_signal_forwarded
    [OF running_start_venv, of SIGINT None "Some ''SIGINT''"]
  have "kills (run ?w [Signal SIGTERM]) = [''SIGTERM'']"
    using fwd_term [THEN conjunct2, THEN conjunct1] by (simp add: run_def none)
  moreover have "exit_code (run ?w [Signal SIGTERM]) = None"
    using fwd_term [THEN conjunct2, THEN conjunct2, THEN conjunct1]
    by (simp add: run_def running_def)
  moreover have "kills (run ?w [Signal SIGINT]) = [''SIGINT'']"
    using fwd_int [THEN conjunct2, THEN conjunct1] by (simp add: run_def none)
  moreover have "exit_code (run ?w [Signal SIGINT, ChildExit None (Some ''SIGINT'')]) = Some 1"
    using fwd_int [THEN conjunct2, THEN conjunct2, THEN conjunct2, THEN conjunct1]
    by (simp add: run_def later)
  ultimately show ?thesis
    by simp
qed

section \<open>The installer's check for Python\<close>

text \<open>
  Under the premise \<open>spawnSync_returns\<close> every check passes, so \<^verbatim>\<open>main\<close> goes through the
  branch for uv and never writes the line for a missing Python.
\<close>

lemma checkCommand_returns:
  assumes "spawnSync_returns w" and "command_name cmd"
  shows "checkCommand w cmd st = (True, emit (SpawnSync cmd [''--version'']) st)"
proof -
  obtain result where "spawnSync w cmd [''--version''] = Inr result"
    using assms unfolding spawnSync_returns_def by blast
  then show ?thesis
    by (simp add: checkCommand_def)
qed

lemma findPython_postinstall_returns:
  assumes "spawnSync_returns w"
  shows "findPython_postinstall w st = (Some ''python3'', emit (SpawnSync ''python3'' [''--version'']) st)"
  by (simp add: findPython_postinstall_def checkCommand_returns [OF assms] command_name_def)

lemmas color_defs = colors_reset_def colors_bright_def colors_green_def colors_yellow_def
  colors_red_def colors_cyan_def

lemma trace_log: "trace (log msg color st) = trace st @ [ConsoleLog (color @ msg @ colors_reset)]"
  by (simp add: log_def emit_def)

lemma trace_emit: "trace (emit e st) = trace st @ [e]"
  by (simp add: emit_def)

lemma trace_process_exit: "trace (process_exit c st) = trace st"
  by (simp add: process_exit_def)

lemmas line_simps = trace_log trace_emit trace_process_exit not_found_line_def color_defs
  cross_mark_def

lemma printSuccessMessage_trace:
  "not_found_line \<notin> set (trace st) \<Longrightarrow> not_found_line \<notin> set (trace (printSuccessMessage u st))"
  by (simp add: printSuccessMessage_def line_simps)

lemma installWithPip_trace:
  "not_found_line \<notin> set (trace st) \<Longrightarrow> not_found_line \<notin> set (trace (snd (installWithPip w p st)))"
  by (simp add: installWithPip_def line_simps Let_def split: option.splits)

lemma installWithUv_trace:
  "not_found_line \<notin> set (trace st) \<Longrightarrow> not_found_line \<notin> set (trace (snd (installWithUv w p st)))"
  by (simp add: installWithUv_def line_simps Let_def split: option.splits)

lemma main_pip_trace:
  assumes "not_found_line \<notin> set (trace st)"
  shows "not_found_line \<notin> set (trace (main_pip w p st))"
proof (cases "installWithPip w p st")
  case (Pair ok st1)
  have st1: "not_found_line \<notin> set (trace st1)"
    using installWithPip_trace [OF assms, of w p] Pair by simp
  show ?thesis
  proof (cases ok)
    case True
    with Pair st1 show ?thesis
      by (simp add: main_pip_def printSuccessMessage_trace)
  next
    case False
    have "not_found_line \<notin> set (trace (process_exit 1
            (log (''  pip install -e '' @ [CHR 0x22] @ ''.[dev]'' @ [CHR 0x22] @ ''\<newline>'') colors_cyan
              (log ''  OR'' colors_yellow
                (log ''  uv sync'' colors_cyan
                  (log ''Please install manually:'' colors_yellow
                    (log (''\<newline>'' @ cross_mark @ '' Failed to install Python dependencies!\<newline>'')
                       colors_red st1)))))))"
      using st1 by (simp add: line_simps)
    with Pair False show ?thesis
      by (simp add: main_pip_def)
  qed
qed

lemma main_trace:
  assumes "spawnSync_returns w"
  shows "not_found_line \<notin> set (trace (main w))"
proof -
  let ?st4 = "emit (SpawnSync ''python3'' [''--version''])
     (log (replicate 60 CHR ''='' @ ''\<newline>'') colors_bright
       (log ''  Graphistry MCP - Python Dependencies Setup'' colors_bright
         (log (''\<newline>'' @ replicate 60 CHR ''='') colors_bright init)))"
  let ?st7 = "log (check_mark @ '' Found uv (recommended package manager)'') colors_green
      (emit (SpawnSync ''uv'' [''--version''])
        (log (check_mark @ '' Found Python: '' @ ''python3'') colors_green ?st4))"
  have st7: "not_found_line \<notin> set (trace ?st7)"
    by (simp add: line_simps init_def)
  have m: "main w = (case installWithUv w ''python3'' ?st7 of
                    (True, st8) \<Rightarrow> printSuccessMessage True st8
                  | (False, st8) \<Rightarrow>
                      main_pip w ''python3''
                        (log ''\<newline>Falling back to pip...'' colors_yellow st8))"
    by (simp add: main_def findPython_postinstall_returns [OF assms]
          checkCommand_returns [OF assms] command_name_def)
  show ?thesis
  proof (cases "installWithUv w ''python3'' ?st7")
    case (Pair ok st8)
    have st8: "not_found_line \<notin> set (trace st8)"
      using installWithUv_trace [OF st7, of w "''python3''"] Pair by simp
    show ?thesis
    proof (cases ok)
      case True
      with Pair st8 show ?thesis
        by (simp add: m printSuccessMessage_trace)
    next
      case False
      have "not_found_line \<notin> set (trace (log ''\<newline>Falling back to pip...'' colors_yellow st8))"
        using st8 by (simp add: line_simps)
      from main_pip_trace [OF this] Pair False show ?thesis
        by (simp add: m)
    qed
  qed
qed

lemma python_not_found_trace: "not_found_line \<in> set (trace (python_not_found st))"
  by (simp add: python_not_found_def trace_log trace_process_exit not_found_line_def)

text \<open>
  Claim C10. In the installer, under the premise that \<^verbatim>\<open>spawnSync\<close> reports a failed launch
  in the result it returns and does not throw, \<^verbatim>\<open>checkCommand\<close> answers \<^verbatim>\<open>true\<close> for every
  command name, whatever the launch did. Hence \<^verbatim>\<open>findPython\<close> always returns \<^verbatim>\<open>python3\<close>
  after a single run whose result it does not look at, and \<^verbatim>\<open>main\<close> never takes its
  "Python not found" branch: the line of that branch is never written, and \<^verbatim>\<open>main\<close> never
  ends the way that branch does.
\<close>

theorem postinstall_python_check_always_passes:
  assumes "spawnSync_returns w"
  shows "(command_name cmd \<longrightarrow> fst (checkCommand w cmd st))
         \<and> findPython_postinstall w st =
             (Some ''python3'', emit (SpawnSync ''python3'' [''--version'']) st)
         \<and> not_found_line \<notin> set (trace (main w))
         \<and> (\<forall>st'. main w \<noteq> python_not_found st')"
proof -
  have "main w \<noteq> python_not_found st'" for st'
    using main_trace [OF assms] python_not_found_trace [of st'] by auto
  then show ?thesis
    by (simp add: checkCommand_returns [OF assms] findPython_postinstall_returns [OF assms]
          main_trace [OF assms])
qed

theorem postinstall_python_check_always_passes_witness:
  "\<not> version_probe_ok (machine [] (\<lambda>c. launch_failed)) ''python3''
   \<and> fst (checkCommand (machine [] (\<lambda>c. launch_failed)) ''no-such-program'' init)
   \<and> findPython_postinstall (machine [] (\<lambda>c. launch_failed)) init =
       (Some ''python3'',
        \<lparr>trace = [SpawnSync ''python3'' [''--version'']], child = None, exit_code = None\<rparr>)
   \<and> not_found_line \<notin> set (trace (main (machine [] (\<lambda>c. launch_failed))))"
proof -
  let ?w = "machine [] (\<lambda>c. launch_failed)"
  have returns: "spawnSync_returns ?w"
    by (simp add: spawnSync_returns_def machine_def launch_failed_def)
  have name: "command_name ''no-such-program''"
    by (simp add: command_name_def)
  have broken: "\<not> version_probe_ok ?w ''python3''"
    by (simp add: machine_simps)
  show ?thesis
    using postinstall_python_check_always_passes [OF returns, of "''no-such-program''" init]
      name broken
    by (simp add: effect_simps)
qed

end
